theory Spec2Isabelle
  imports Complex_Main
begin

section \<open>Line labelling of adb\_graphics: the model\<close>

text \<open>
  The theory embeds \<^verbatim>\<open>label_line\<close> and \<^verbatim>\<open>label_lines\<close> of
  \<^verbatim>\<open>src/adb_graphics/utils.py\<close>. Python floats are idealised as real numbers,
  so \<^verbatim>\<open>math.atan2\<close> and \<^verbatim>\<open>math.degrees\<close> are the mathematical functions.
  The axis object is a record: its \<^verbatim>\<open>transData.transform_angles\<close> and its face
  colour are fields, and the text boxes drawn so far are the state that
  \<^verbatim>\<open>ax.text\<close> extends. Keyword arguments are typed: \<^verbatim>\<open>align\<close> is a bool,
  \<^verbatim>\<open>end\<close> a string, \<^verbatim>\<open>offset\<close> an integer, and \<open>kwargs\<close> holds the
  remaining ones, which go to the text box. A call that gives a parameter two values
  raises TypeError: \<^verbatim>\<open>ax.text(x, y, label, rotation=trans_angle, **kwargs)\<close> when
  \<open>kwargs\<close> holds \<^verbatim>\<open>rotation\<close>, and
  \<^verbatim>\<open>label_line(ax, label, line, align=True, offset=offset, **kwargs)\<close> when
  \<open>kwargs\<close> holds \<^verbatim>\<open>align\<close>, \<^verbatim>\<open>label\<close> or \<^verbatim>\<open>segment\<close>. The method
  \<^verbatim>\<open>ax.text\<close> itself belongs to the plotting library; it is the effect of adding
  the text box.
\<close>

subsection \<open>Values and errors\<close>

datatype error = IndexError | UnboundLocalError | ValueError | OverflowError | TypeError

type_synonym point = "real \<times> real"

text \<open>A segment is an (N, 2) array: N rows, each a point.\<close>

type_synonym segment = "point list"

type_synonym color = "real \<times> real \<times> real \<times> real"

datatype kwval = KStr string | KBool bool | KNum real | KColor color

type_synonym kwargs = "string \<rightharpoonup> kwval"

record 'l text_call =
  text_x :: real
  text_y :: real
  text_s :: 'l
  rotation :: real
  text_kw :: kwargs

record 'l axes =
  transform_angles :: "real \<Rightarrow> point \<Rightarrow> real"
  facecolor :: color
  texts :: "'l text_call list"

text \<open>
  Indexing of a Python list or of the first axis of a numpy array with an integer:
  an index in \<open>[-n, n)\<close> is accepted, a negative one counts from the end, and any other
  index raises IndexError.
\<close>

definition getitem :: "'a list \<Rightarrow> int \<Rightarrow> error + 'a" where
  "getitem xs i =
     (let n = int (length xs) in
      if 0 \<le> i \<and> i < n then Inr (xs ! nat i)
      else if - n \<le> i \<and> i < 0 then Inr (xs ! nat (i + n))
      else Inl IndexError)"

subsection \<open>math.atan2 and math.degrees on the reals\<close>

definition atan2 :: "real \<Rightarrow> real \<Rightarrow> real" where
  "atan2 y x =
     (if 0 < x then arctan (y / x)
      else if x < 0 then (if 0 \<le> y then arctan (y / x) + pi else arctan (y / x) - pi)
      else if 0 < y then pi / 2
      else if y < 0 then - (pi / 2)
      else 0)"

definition degrees :: "real \<Rightarrow> real" where
  "degrees r = r * 180 / pi"

subsection \<open>label\_line\<close>

text \<open>
  Lines 101 to 107: the label location \<open>(x, y)\<close> and the index \<open>ip\<close>. With any other
  value of \<^verbatim>\<open>end\<close> neither branch runs, and the first later use of \<open>ip\<close> or \<open>x\<close>
  raises UnboundLocalError.
\<close>

definition label_location :: "segment \<Rightarrow> string \<Rightarrow> int \<Rightarrow> error + (point \<times> int)" where
  "label_location segment whichend offset =
     (if whichend = ''bottom'' then
        (case getitem segment (0 + offset) of
           Inl e \<Rightarrow> Inl e
         | Inr p \<Rightarrow> Inr (p, 1 + offset))
      else if whichend = ''top'' then
        (case getitem segment (- 1 - offset) of
           Inl e \<Rightarrow> Inl e
         | Inr p \<Rightarrow> Inr (p, - 1 - offset))
      else Inl UnboundLocalError)"

text \<open>Lines 111 and 112: \<open>dx\<close> and \<open>dy\<close>, read from rows \<open>ip\<close> and \<open>ip - 1\<close>.\<close>

definition slope :: "segment \<Rightarrow> int \<Rightarrow> error + (real \<times> real)" where
  "slope segment ip =
     (case getitem segment ip of
        Inl e \<Rightarrow> Inl e
      | Inr p \<Rightarrow>
          (case getitem segment (ip - 1) of
             Inl e \<Rightarrow> Inl e
           | Inr q \<Rightarrow> Inr (fst p - fst q, snd p - snd q)))"

text \<open>Line 113: \<open>ang\<close>, the angle of the slope in data space, in degrees.\<close>

definition line_angle :: "segment \<Rightarrow> int \<Rightarrow> error + real" where
  "line_angle segment ip =
     (case slope segment ip of
        Inl e \<Rightarrow> Inl e
      | Inr (dx, dy) \<Rightarrow> Inr (degrees (atan2 dy dx)))"

text \<open>Lines 109 to 123: \<open>trans_angle\<close>.\<close>

definition text_rotation ::
  "(real \<Rightarrow> point \<Rightarrow> real) \<Rightarrow> segment \<Rightarrow> point \<Rightarrow> int \<Rightarrow> bool \<Rightarrow> string \<Rightarrow> error + real" where
  "text_rotation transform segment pt ip align whichend =
     (if align then
        (case line_angle segment ip of
           Inl e \<Rightarrow> Inl e
         | Inr ang \<Rightarrow>
             (let trans_angle = transform ang pt in
              if whichend = ''top'' then Inr (trans_angle - 180) else Inr trans_angle))
      else Inr 0)"

text \<open>Lines 101 to 123 together: the location and the rotation of the label.\<close>

definition label_placement ::
  "(real \<Rightarrow> point \<Rightarrow> real) \<Rightarrow> segment \<Rightarrow> bool \<Rightarrow> string \<Rightarrow> int \<Rightarrow> error + (point \<times> real)" where
  "label_placement transform segment align whichend offset =
     (case label_location segment whichend offset of
        Inl e \<Rightarrow> Inl e
      | Inr (pt, ip) \<Rightarrow>
          (case text_rotation transform segment pt ip align whichend of
             Inl e \<Rightarrow> Inl e
           | Inr trans_angle \<Rightarrow> Inr (pt, trans_angle)))"

text \<open>Lines 126 to 146: the defaults of the text box keyword arguments.\<close>

definition text_defaults :: "color \<Rightarrow> kwargs \<Rightarrow> kwargs" where
  "text_defaults face kw0 =
     (let kw1 = (if kw0 ''horizontalalignment'' = None \<and> kw0 ''ha'' = None
                 then kw0(''ha'' \<mapsto> KStr ''center'') else kw0);
          kw2 = (if kw1 ''verticalalignment'' = None \<and> kw1 ''va'' = None
                 then kw1(''va'' \<mapsto> KStr ''center'') else kw1);
          kw3 = (if kw2 ''backgroundcolor'' = None
                 then kw2(''backgroundcolor'' \<mapsto> KColor face) else kw2);
          kw4 = (if kw3 ''clip_on'' = None then kw3(''clip_on'' \<mapsto> KBool True) else kw3);
          kw5 = (if kw4 ''fontsize'' = None then kw4(''fontsize'' \<mapsto> KStr ''larger'') else kw4);
          kw6 = (if kw5 ''fontweight'' = None then kw5(''fontweight'' \<mapsto> KStr ''bold'') else kw5);
          kw7 = (if kw6 ''zorder'' = None then kw6(''zorder'' \<mapsto> KNum 1.50) else kw6)
      in kw7)"

text \<open>The effect of \<^verbatim>\<open>ax.text\<close>: one more text box on the axis.\<close>

definition ax_text :: "'l axes \<Rightarrow> real \<Rightarrow> real \<Rightarrow> 'l \<Rightarrow> real \<Rightarrow> kwargs \<Rightarrow> 'l axes" where
  "ax_text ax x y s rot kw =
     ax\<lparr>texts := texts ax @
        [\<lparr>text_x = x, text_y = y, text_s = s, rotation = rot, text_kw = kw\<rparr>]\<rparr>"

text \<open>
  \<^verbatim>\<open>label_line\<close>, lines 96 to 149. The last line is the call
  \<^verbatim>\<open>ax.text(x, y, label, rotation=trans_angle, **kwargs)\<close>: the defaults of lines
  126 to 146 never add the key \<^verbatim>\<open>rotation\<close>, so the call gives \<^verbatim>\<open>rotation\<close>
  two values, a TypeError, exactly when the caller's \<open>kwargs\<close> hold it; nothing is
  drawn then. The location and the angle are computed before the call, so their
  errors come first.
\<close>

definition label_line ::
  "'l axes \<Rightarrow> 'l \<Rightarrow> segment \<Rightarrow> bool \<Rightarrow> string \<Rightarrow> int \<Rightarrow> kwargs \<Rightarrow> error + 'l axes" where
  "label_line ax label segment align whichend offset kwargs =
     (case label_placement (transform_angles ax) segment align whichend offset of
        Inl e \<Rightarrow> Inl e
      | Inr ((x, y), trans_angle) \<Rightarrow>
          (if kwargs ''rotation'' = None
           then Inr (ax_text ax x y label trans_angle (text_defaults (facecolor ax) kwargs))
           else Inl TypeError))"

subsection \<open>label\_lines\<close>

text \<open>
  A label value as \<^verbatim>\<open>int()\<close> sees it: an integer, a float (finite, or one of the
  three special values) or None. \<^verbatim>\<open>int\<close> truncates a finite float towards zero,
  raises ValueError on NaN, OverflowError on an infinity and TypeError on None.
\<close>

datatype pyfloat = Finite real | NaN | PosInf | NegInf

datatype pyval = PyInt int | PyFloat pyfloat | PyNone

definition trunc :: "real \<Rightarrow> int" where
  "trunc r = (if 0 \<le> r then \<lfloor>r\<rfloor> else \<lceil>r\<rceil>)"

fun py_int :: "pyval \<Rightarrow> error + int" where
  "py_int (PyInt i) = Inr i"
| "py_int (PyFloat (Finite r)) = Inr (trunc r)"
| "py_int (PyFloat NaN) = Inl ValueError"
| "py_int (PyFloat PosInf) = Inl OverflowError"
| "py_int (PyFloat NegInf) = Inl OverflowError"
| "py_int PyNone = Inl TypeError"

text \<open>The line collection: \<^verbatim>\<open>get_segments()\<close> and \<^verbatim>\<open>get_color()\<close>.\<close>

record line_collection =
  get_segments :: "segment list"
  get_color :: "color list"

text \<open>
  Lines 173 to 175: the loop over the enumerated segments. The first exception ends it.
  Line 174 looks the label up and coerces it; line 175 is the call
  \<^verbatim>\<open>label_line(ax, label, line, align=True, offset=offset, **kwargs)\<close>, which gives
  a parameter of \<^verbatim>\<open>label_line(ax, label, segment, **kwargs)\<close> two values, a
  TypeError, when \<open>kwargs\<close> hold \<^verbatim>\<open>align\<close>, \<^verbatim>\<open>label\<close> or \<^verbatim>\<open>segment\<close>
  (\<^verbatim>\<open>ax\<close> and \<^verbatim>\<open>offset\<close> are parameters of \<^verbatim>\<open>label_lines\<close> and cannot be
  in its \<open>kwargs\<close>).
\<close>

fun label_lines_loop ::
  "int axes \<Rightarrow> pyval list \<Rightarrow> int \<Rightarrow> string \<Rightarrow> kwargs \<Rightarrow> nat \<Rightarrow> segment list \<Rightarrow> error + int axes"
  where
  "label_lines_loop ax labels offset whichend kwargs i [] = Inr ax"
| "label_lines_loop ax labels offset whichend kwargs i (line # rest) =
     (case getitem labels (int i) of
        Inl e \<Rightarrow> Inl e
      | Inr v \<Rightarrow>
          (case py_int v of
             Inl e \<Rightarrow> Inl e
           | Inr label \<Rightarrow>
               (if kwargs ''align'' = None \<and> kwargs ''label'' = None \<and>
                   kwargs ''segment'' = None
                then
                  (case label_line ax label line True whichend offset kwargs of
                     Inl e \<Rightarrow> Inl e
                   | Inr ax' \<Rightarrow>
                       label_lines_loop ax' labels offset whichend kwargs (Suc i) rest)
                else Inl TypeError)))"

text \<open>
  Lines 170 to 175. The keyword \<^verbatim>\<open>end\<close>, when the caller gives it, travels in
  \<^verbatim>\<open>**kwargs\<close> to \<^verbatim>\<open>label_line\<close>; here it is the argument \<open>whichend\<close>.
\<close>

definition label_lines ::
  "int axes \<Rightarrow> line_collection \<Rightarrow> pyval list \<Rightarrow> int \<Rightarrow> string \<Rightarrow> kwargs \<Rightarrow> error + int axes" where
  "label_lines ax lines labels offset whichend kwargs =
     (case (if kwargs ''color'' = None then
              (case getitem (get_color lines) 0 of
                 Inl e \<Rightarrow> Inl e
               | Inr c \<Rightarrow> Inr (kwargs(''color'' \<mapsto> KColor c)))
            else Inr kwargs) of
        Inl e \<Rightarrow> Inl e
      | Inr kw \<Rightarrow> label_lines_loop ax labels offset whichend kw 0 (get_segments lines))"

subsection \<open>Concrete inputs\<close>

text \<open>The identity transform leaves every angle as it is.\<close>

definition identity_transform :: "real \<Rightarrow> point \<Rightarrow> real" where
  "identity_transform ang pt = ang"

definition identity_axes :: "int axes" where
  "identity_axes = \<lparr>transform_angles = identity_transform, facecolor = (1, 1, 1, 1), texts = []\<rparr>"

text \<open>Line collections of three segments and of one, with one colour.\<close>

definition three_lines :: line_collection where
  "three_lines =
     \<lparr>get_segments = [[(0, 0), (1, 0)], [(0, 0), (1, 1)], [(0, 0), (0, 2)]],
      get_color = [(0, 0, 0, 1)]\<rparr>"


subsection \<open>The index arithmetic of the specification\<close>



definition spec_tangent_pair :: "nat \<Rightarrow> string \<Rightarrow> int \<Rightarrow> int \<times> int" where
  "spec_tangent_pair n whichend offset =
     (if whichend = ''bottom'' then (offset, offset + 1)
      else (int n - 1 - offset, int n - 2 - offset))"

definition spec_tangent_vector :: "segment \<Rightarrow> string \<Rightarrow> int \<Rightarrow> real \<times> real" where
  "spec_tangent_vector segment whichend offset =
     (let pair = spec_tangent_pair (length segment) whichend offset;
          p = segment ! nat (fst pair);
          q = segment ! nat (snd pair)
      in (fst p - fst q, snd p - snd q))"

text \<open>The point after index \<open>i\<close> minus the point at index \<open>i\<close>.\<close>

definition forward_difference :: "segment \<Rightarrow> int \<Rightarrow> real \<times> real" where
  "forward_difference segment i =
     (fst (segment ! nat (i + 1)) - fst (segment ! nat i),
      snd (segment ! nat (i + 1)) - snd (segment ! nat i))"

section \<open>Properties\<close>

subsection \<open>Indexing\<close>

lemma getitem_nonneg:
  "0 \<le> i \<Longrightarrow>
   getitem xs i = (if i < int (length xs) then Inr (xs ! nat i) else Inl IndexError)"
  by (simp add: getitem_def Let_def)

lemma getitem_neg:
  "i < 0 \<Longrightarrow>
   getitem xs i =
     (if - int (length xs) \<le> i then Inr (xs ! nat (i + int (length xs))) else Inl IndexError)"
  by (simp add: getitem_def Let_def)


subsection \<open>The placement in closed form\<close>

lemma placement_bottom_align:
  assumes "0 \<le> offset"
  shows "label_placement transform segment True ''bottom'' offset =
     (if offset + 1 < int (length segment) then
        Inr (segment ! nat offset,
             transform
               (degrees (atan2 (snd (segment ! nat (offset + 1)) - snd (segment ! nat offset))
                               (fst (segment ! nat (offset + 1)) - fst (segment ! nat offset))))
               (segment ! nat offset))
      else Inl IndexError)"
  using assms
  by (simp add: label_placement_def label_location_def text_rotation_def line_angle_def
      slope_def getitem_nonneg Let_def add.commute)

lemma placement_top_align:
  assumes "0 \<le> offset"
  shows "label_placement transform segment True ''top'' offset =
     (if offset + 1 < int (length segment) then
        Inr (segment ! nat (int (length segment) - 1 - offset),
             transform
               (degrees (atan2 (snd (segment ! nat (int (length segment) - 1 - offset))
                                 - snd (segment ! nat (int (length segment) - 2 - offset)))
                               (fst (segment ! nat (int (length segment) - 1 - offset))
                                 - fst (segment ! nat (int (length segment) - 2 - offset)))))
               (segment ! nat (int (length segment) - 1 - offset)) - 180)
      else Inl IndexError)"
  using assms
  by (auto simp add: label_placement_def label_location_def text_rotation_def line_angle_def
      slope_def getitem_neg Let_def algebra_simps)




lemma slope_bottom:
  assumes "0 \<le> offset" and "offset + 1 < int (length segment)"
  shows "slope segment (1 + offset) = Inr (forward_difference segment offset)"
  using assms by (simp add: slope_def getitem_nonneg forward_difference_def add.commute)

lemma slope_top:
  assumes "0 \<le> offset" and "offset + 1 < int (length segment)"
  shows "slope segment (- 1 - offset) =
           Inr (forward_difference segment (int (length segment) - 2 - offset))"
proof -
  have "int (length segment) - 2 - offset + 1 = int (length segment) - 1 - offset"
    by simp
  then show ?thesis
    using assms by (simp add: slope_def getitem_neg forward_difference_def algebra_simps)
qed





lemma degrees_pi_quarter: "degrees (pi / 4) = 45"
  by (simp add: degrees_def)


subsection \<open>The loop of label\_lines\<close>












subsection \<open>Keyword arguments that give a parameter two values\<close>

text \<open>
  With \<^verbatim>\<open>rotation\<close> among the keyword arguments \<^verbatim>\<open>label_line\<close> raises
  TypeError once the placement is computed, and IndexError before that when the
  placement fails; \<^verbatim>\<open>label_lines\<close> raises TypeError at its first call of
  \<^verbatim>\<open>label_line\<close> with \<^verbatim>\<open>rotation\<close> or \<^verbatim>\<open>align\<close> among them, before the
  second label is looked at.
\<close>

lemma label_line_rotation_given:
  "label_line identity_axes 5 [(0, 0), (1, 0)] False ''bottom'' 0 [''rotation'' \<mapsto> KNum 30] =
     Inl TypeError"
  "label_line identity_axes 5 [(0, 0), (1, 0)] False ''bottom'' 2 [''rotation'' \<mapsto> KNum 30] =
     Inl IndexError"
  by (simp_all add: label_line_def label_placement_def label_location_def text_rotation_def
      getitem_def)

lemma label_lines_rotation_given:
  "label_lines identity_axes three_lines [PyInt 10, PyFloat NaN, PyInt 30] 0 ''bottom''
     [''rotation'' \<mapsto> KNum 30] = Inl TypeError"
  by (simp add: label_lines_def three_lines_def getitem_def label_line_def
      label_placement_def label_location_def text_rotation_def line_angle_def slope_def
      atan2_def degrees_def identity_axes_def identity_transform_def)

lemma label_lines_align_given:
  "label_lines identity_axes three_lines [PyInt 10, PyFloat NaN, PyInt 30] 0 ''bottom''
     [''align'' \<mapsto> KBool False] = Inl TypeError"
  by (simp add: label_lines_def three_lines_def getitem_def)

section \<open>The claims\<close>

text \<open>
  C1, as the specification has it, fails: on the segment \<open>[(0,0), (1,0)]\<close> with the
  identity transform, \<open>align\<close> true, the top end and offset 0, the angle before the
  adjustment of the top end is 0 degrees, not 180, and the rotation after the
  subtraction of 180 is \<open>-180\<close> degrees, not 0. The slope is always the row \<open>ip\<close>
  minus the row \<open>ip - 1\<close>, so the pair is not reversed at the top end.
\<close>

theorem C1_counterexample:
  "line_angle [(0, 0), (1, 0)] (- 1 - 0) = Inr 0 \<and>
   line_angle [(0, 0), (1, 0)] (- 1 - 0) \<noteq> Inr 180 \<and>
   label_placement identity_transform [(0, 0), (1, 0)] True ''top'' 0 = Inr ((1, 0), - 180) \<and>
   label_placement identity_transform [(0, 0), (1, 0)] True ''top'' 0 \<noteq> Inr ((1, 0), 0)"
  by (simp add: line_angle_def slope_def getitem_def atan2_def degrees_def
      label_placement_def label_location_def text_rotation_def identity_transform_def)

text \<open>
  C1, amended: on the segment \<open>[(0,0), (1,0)]\<close> with the identity transform and
  \<open>align\<close> true, the bottom end with offset 0 has the angle 0 degrees and the label is
  placed at \<open>(0,0)\<close> with rotation 0; the top end with offset 0 has the angle 0 degrees
  before the adjustment and the label is placed at \<open>(1,0)\<close> with rotation \<open>-180\<close>.
\<close>

theorem C1_horizontal_line:
  "line_angle [(0, 0), (1, 0)] (1 + 0) = Inr 0 \<and>
   label_placement identity_transform [(0, 0), (1, 0)] True ''bottom'' 0 = Inr ((0, 0), 0) \<and>
   line_angle [(0, 0), (1, 0)] (- 1 - 0) = Inr 0 \<and>
   label_placement identity_transform [(0, 0), (1, 0)] True ''top'' 0 = Inr ((1, 0), - 180)"
  by (simp add: line_angle_def slope_def getitem_def atan2_def degrees_def
      label_placement_def label_location_def text_rotation_def identity_transform_def)

text \<open>
  C2, as the specification has it, fails at the bottom end: on \<open>[(0,0), (1,1)]\<close> with
  offset 0 the tangent pair of the specification is \<open>(0, 1)\<close> and its vector, the first
  point minus the second, is \<open>(-1,-1)\<close> with the angle \<open>-135\<close> degrees, while the code
  computes the slope \<open>(1,1)\<close> and the angle 45 degrees.
\<close>

theorem C2_counterexample:
  "spec_tangent_vector [(0, 0), (1, 1)] ''bottom'' 0 = (- 1, - 1) \<and>
   slope [(0, 0), (1, 1)] (1 + 0) = Inr (1, 1) \<and>
   slope [(0, 0), (1, 1)] (1 + 0) \<noteq> Inr (spec_tangent_vector [(0, 0), (1, 1)] ''bottom'' 0) \<and>
   line_angle [(0, 0), (1, 1)] (1 + 0) = Inr 45 \<and>
   degrees (atan2 (snd (spec_tangent_vector [(0, 0), (1, 1)] ''bottom'' 0))
                  (fst (spec_tangent_vector [(0, 0), (1, 1)] ''bottom'' 0))) = - 135"
  by (simp add: spec_tangent_vector_def spec_tangent_pair_def slope_def getitem_def
      line_angle_def atan2_def arctan_one degrees_def)

text \<open>
  C2, amended: for a segment of at least two points and an offset with
  \<open>0 \<le> offset < length - 1\<close>, when \<open>align\<close> is true the tangent vector is the point
  at \<open>offset + 1\<close> minus the point at \<open>offset\<close> at the bottom end, and the point at
  \<open>length - 1 - offset\<close> minus the point at \<open>length - 2 - offset\<close> at the top end (the
  vector of the specification there); the data-space angle is \<open>atan2 dy dx\<close> of that
  vector in degrees, and the rotation is the transform of this angle at the anchor,
  less 180 at the top end.
\<close>

theorem C2_tangent_vector:
  assumes "2 \<le> length segment" and "0 \<le> offset" and "offset < int (length segment) - 1"
  shows
    "slope segment (1 + offset) = Inr (forward_difference segment offset) \<and>
     line_angle segment (1 + offset) =
       Inr (degrees (atan2 (snd (forward_difference segment offset))
                           (fst (forward_difference segment offset)))) \<and>
     label_placement transform segment True ''bottom'' offset =
       Inr (segment ! nat offset,
            transform (degrees (atan2 (snd (forward_difference segment offset))
                                      (fst (forward_difference segment offset))))
              (segment ! nat offset)) \<and>
     slope segment (- 1 - offset) = Inr (spec_tangent_vector segment ''top'' offset) \<and>
     line_angle segment (- 1 - offset) =
       Inr (degrees (atan2 (snd (spec_tangent_vector segment ''top'' offset))
                           (fst (spec_tangent_vector segment ''top'' offset)))) \<and>
     label_placement transform segment True ''top'' offset =
       Inr (segment ! nat (int (length segment) - 1 - offset),
            transform (degrees (atan2 (snd (spec_tangent_vector segment ''top'' offset))
                                      (fst (spec_tangent_vector segment ''top'' offset))))
              (segment ! nat (int (length segment) - 1 - offset)) - 180)"
proof -
  have lt: "offset + 1 < int (length segment)"
    using assms by simp
  have b: "slope segment (1 + offset) = Inr (forward_difference segment offset)"
    using assms(2) lt by (rule slope_bottom)
  have t: "slope segment (- 1 - offset) =
      Inr (forward_difference segment (int (length segment) - 2 - offset))"
    using assms(2) lt by (rule slope_top)
  have eq: "forward_difference segment (int (length segment) - 2 - offset) =
      spec_tangent_vector segment ''top'' offset"
    by (simp add: forward_difference_def spec_tangent_vector_def spec_tangent_pair_def Let_def
        algebra_simps)
  have pb: "label_placement transform segment True ''bottom'' offset =
       Inr (segment ! nat offset,
            transform (degrees (atan2 (snd (forward_difference segment offset))
                                      (fst (forward_difference segment offset))))
              (segment ! nat offset))"
    using assms(2) lt by (simp add: placement_bottom_align forward_difference_def)
  have pt: "label_placement transform segment True ''top'' offset =
       Inr (segment ! nat (int (length segment) - 1 - offset),
            transform (degrees (atan2 (snd (spec_tangent_vector segment ''top'' offset))
                                      (fst (spec_tangent_vector segment ''top'' offset))))
              (segment ! nat (int (length segment) - 1 - offset)) - 180)"
    using assms(2) lt
    by (simp add: placement_top_align spec_tangent_vector_def spec_tangent_pair_def Let_def)
  show ?thesis
    using b t eq pb pt by (simp add: line_angle_def split: prod.splits)
qed

theorem C2_tangent_vector_witness:
  "2 \<le> length [(0::real, 0::real), (1, 1), (3, 1)] \<and> (0::int) \<le> 1 \<and>
   (1::int) < int (length [(0::real, 0::real), (1, 1), (3, 1)]) - 1 \<and>
   slope [(0, 0), (1, 1), (3, 1)] (1 + 1) = Inr (2, 0) \<and>
   slope [(0, 0), (1, 1), (3, 1)] (- 1 - 1) = Inr (1, 1) \<and>
   label_placement identity_transform [(0, 0), (1, 1), (3, 1)] True ''bottom'' 1 =
     Inr ((1, 1), 0) \<and>
   label_placement identity_transform [(0, 0), (1, 1), (3, 1)] True ''top'' 1 =
     Inr ((1, 1), - 135)"
  using C2_tangent_vector [of "[(0, 0), (1, 1), (3, 1)]" 1 identity_transform]
  by (simp add: spec_tangent_vector_def spec_tangent_pair_def forward_difference_def
      identity_transform_def atan2_def arctan_one degrees_def)









text \<open>
  C6: with the identity transform and \<open>align\<close> true, the segment \<open>[(0,0), (1,1)]\<close>
  labelled at the bottom end with offset 0 has the data-space angle 45 degrees, and
  that is the rotation of the label.
\<close>

theorem C6_angle_45:
  "line_angle [(0, 0), (1, 1)] (1 + 0) = Inr 45 \<and>
   label_placement identity_transform [(0, 0), (1, 1)] True ''bottom'' 0 = Inr ((0, 0), 45)"
  by (simp add: line_angle_def slope_def getitem_def atan2_def arctan_one degrees_pi_quarter
      label_placement_def label_location_def text_rotation_def identity_transform_def)







end
